theory Spec2Isabelle
  imports Complex_Main "HOL-Library.List_Lexorder" "HOL-Library.Char_ord"
begin

section \<open>JavaScript numbers and cell values\<close>

text \<open>
  The panel computes with JavaScript numbers. A number is modelled as a finite value, one of
  the two infinities, or NaN. Finite values are exact rationals: the rounding error of
  double arithmetic and the overflow to an infinity are not modelled, and the two zeros are
  one value. The last identification is harmless here: a zero divisor is always the positive
  zero, since \<open>|| 0\<close> turns a zero \<open>referenceValue\<close> into it and the scales test their
  divisors before they divide.
\<close>

datatype jsnum = Fin rat | PosInf | NegInf | NaN

fun js_neg :: "jsnum \<Rightarrow> jsnum" where
  "js_neg (Fin a) = Fin (- a)"
| "js_neg PosInf = NegInf"
| "js_neg NegInf = PosInf"
| "js_neg NaN = NaN"

fun js_add :: "jsnum \<Rightarrow> jsnum \<Rightarrow> jsnum" where
  "js_add NaN y = NaN"
| "js_add x NaN = NaN"
| "js_add (Fin a) (Fin b) = Fin (a + b)"
| "js_add PosInf NegInf = NaN"
| "js_add NegInf PosInf = NaN"
| "js_add PosInf y = PosInf"
| "js_add x PosInf = PosInf"
| "js_add NegInf y = NegInf"
| "js_add x NegInf = NegInf"

definition js_sub :: "jsnum \<Rightarrow> jsnum \<Rightarrow> jsnum" where
  "js_sub x y = js_add x (js_neg y)"

fun js_mul :: "jsnum \<Rightarrow> jsnum \<Rightarrow> jsnum" where
  "js_mul NaN y = NaN"
| "js_mul x NaN = NaN"
| "js_mul (Fin a) (Fin b) = Fin (a * b)"
| "js_mul (Fin a) y = (if a = 0 then NaN else if 0 < a then y else js_neg y)"
| "js_mul x (Fin b) = (if b = 0 then NaN else if 0 < b then x else js_neg x)"
| "js_mul PosInf y = y"
| "js_mul NegInf y = js_neg y"

text \<open>Division; a zero divisor is the positive zero.\<close>

fun js_div :: "jsnum \<Rightarrow> jsnum \<Rightarrow> jsnum" where
  "js_div NaN y = NaN"
| "js_div x NaN = NaN"
| "js_div (Fin a) (Fin b) =
     (if b \<noteq> 0 then Fin (a / b)
      else if a = 0 then NaN
      else if 0 < a then PosInf else NegInf)"
| "js_div (Fin a) y = Fin 0"
| "js_div x (Fin b) = (if b < 0 then js_neg x else x)"
| "js_div x y = NaN"

text \<open>The comparison \<open>x < y\<close> of two numbers; every comparison with NaN is false.\<close>

fun js_lt :: "jsnum \<Rightarrow> jsnum \<Rightarrow> bool" where
  "js_lt NaN y = False"
| "js_lt x NaN = False"
| "js_lt (Fin a) (Fin b) = (a < b)"
| "js_lt x NegInf = False"
| "js_lt PosInf y = False"
| "js_lt x y = True"

definition js_gt :: "jsnum \<Rightarrow> jsnum \<Rightarrow> bool" where
  "js_gt x y = js_lt y x"

text \<open>Truthiness of a number: zero and NaN are falsy.\<close>

fun truthy :: "jsnum \<Rightarrow> bool" where
  "truthy (Fin a) = (a \<noteq> 0)"
| "truthy NaN = False"
| "truthy x = True"

text \<open>\<open>x || 0\<close> on a number.\<close>

definition or_zero :: "jsnum \<Rightarrow> jsnum" where
  "or_zero x = (if truthy x then x else Fin 0)"

text \<open>
  A stored cell is a number, \<open>null\<close>, \<open>undefined\<close>, or a text. Texts are the row keys of the
  pivot column, such as \<open>A\<close>: text that is no numeric literal, whose numeric reading is NaN.
  Measure columns hold numbers (and \<open>null\<close> for a missing measurement).
\<close>

datatype jsval = Undefined | Null | Number jsnum | Text string

fun ToNumber :: "jsval \<Rightarrow> jsnum" where
  "ToNumber Undefined = NaN"
| "ToNumber Null = Fin 0"
| "ToNumber (Number x) = x"
| "ToNumber (Text s) = NaN"

section \<open>Number formatting and parsing\<close>

definition digit_char :: "nat \<Rightarrow> char" where
  "digit_char d = char_of (48 + d)"

definition is_digit :: "char \<Rightarrow> bool" where
  "is_digit c = (48 \<le> (of_char c :: nat) \<and> (of_char c :: nat) \<le> 57)"

definition digit_value :: "char \<Rightarrow> nat" where
  "digit_value c = of_char c - 48"

text \<open>The decimal digits of a natural number, and the number a digit string denotes.\<close>

fun showNat :: "nat \<Rightarrow> string" where
  "showNat n = (if n < 10 then [digit_char n] else showNat (n div 10) @ [digit_char (n mod 10)])"

declare showNat.simps [simp del]

definition dec_value :: "string \<Rightarrow> nat" where
  "dec_value s = foldl (\<lambda>a c. 10 * a + digit_value c) 0 s"

text \<open>
  \<open>Number.prototype.toFixed(2)\<close> on a non-negative finite number below \<open>10^21\<close>: the integer
  \<open>n\<close> with \<open>n / 100\<close> nearest to \<open>x\<close> (the larger one on a tie), printed with at least three
  digits and a point before the last two. From \<open>10^21\<close> on \<open>toFixed\<close> prints the number
  itself; a double of that size is an integer, and reading the text back gives the same
  value as below.
\<close>

definition toFixed2 :: "rat \<Rightarrow> string" where
  "toFixed2 x =
     (let n = nat \<lfloor>x * 100 + 1 / 2\<rfloor>;
          m = showNat n;
          m' = replicate (3 - length m) (CHR ''0'') @ m;
          k = length m'
      in take (k - 2) m' @ ''.'' @ drop (k - 2) m')"

text \<open>
  \<open>parseFloat\<close>: skip leading blanks, then read the longest prefix that is a decimal
  literal (sign, \<open>Infinity\<close> or digits with an optional fraction and exponent); NaN when
  there is none.
\<close>

definition is_space :: "char \<Rightarrow> bool" where
  "is_space c = (c \<in> set [CHR '' '', CHR 0x09, CHR 0x0A, CHR 0x0B, CHR 0x0C, CHR 0x0D])"

definition exponent_part :: "string \<Rightarrow> int" where
  "exponent_part s =
     (case s of
        [] \<Rightarrow> 0
      | c # t \<Rightarrow>
          if c = CHR ''e'' \<or> c = CHR ''E'' then
            (case t of
               [] \<Rightarrow> 0
             | g # u \<Rightarrow>
                 if g = CHR ''-'' then - int (dec_value (takeWhile is_digit u))
                 else if g = CHR ''+'' then int (dec_value (takeWhile is_digit u))
                 else int (dec_value (takeWhile is_digit t)))
          else 0)"

definition scale10 :: "rat \<Rightarrow> int \<Rightarrow> rat" where
  "scale10 x e = (if 0 \<le> e then x * 10 ^ nat e else x / 10 ^ nat (- e))"

definition parse_unsigned :: "string \<Rightarrow> jsnum" where
  "parse_unsigned s =
     (if take 8 s = ''Infinity'' then PosInf
      else
        let ip = takeWhile is_digit s;
            r1 = dropWhile is_digit s;
            has_point = (r1 \<noteq> [] \<and> hd r1 = CHR ''.'');
            fp = (if has_point then takeWhile is_digit (tl r1) else []);
            r2 = (if has_point then dropWhile is_digit (tl r1) else r1)
        in if ip = [] \<and> fp = [] then NaN
           else Fin (scale10 (of_nat (dec_value ip) + of_nat (dec_value fp) / 10 ^ length fp)
                       (exponent_part r2)))"

definition parseFloat :: "string \<Rightarrow> jsnum" where
  "parseFloat s =
     (let t = dropWhile is_space s
      in case t of
           [] \<Rightarrow> NaN
         | c # r \<Rightarrow>
             if c = CHR ''-'' then js_neg (parse_unsigned r)
             else if c = CHR ''+'' then parse_unsigned r
             else parse_unsigned t)"

text \<open>
  \<open>d3.format('.2f')\<close>: the argument is coerced to a number; NaN prints as \<open>NaN\<close>; otherwise
  the absolute value is printed by \<open>toFixed(2)\<close> (an infinity as \<open>Infinity\<close>) and a negative
  number gets the sign \<open>-\<close>, unless the printed text reads as zero. The sign is the ASCII
  hyphen of the default locale of d3-format 1.x, the one \<open>parseFloat\<close> reads.
\<close>

definition d3_format_2f :: "jsval \<Rightarrow> string" where
  "d3_format_2f v =
     (case ToNumber v of
        NaN \<Rightarrow> ''NaN''
      | PosInf \<Rightarrow> ''Infinity''
      | NegInf \<Rightarrow> ''-Infinity''
      | Fin x \<Rightarrow>
          (let s = toFixed2 \<bar>x\<bar>
           in if x < 0 \<and> parseFloat s \<noteq> Fin 0 then ''-'' @ s else s))"

text \<open>
  Rounding to two decimal places, as a function of numbers: the nearest multiple of
  \<open>0.01\<close>, a tie going away from zero; NaN and the infinities are kept.
\<close>

fun round2 :: "jsnum \<Rightarrow> jsnum" where
  "round2 (Fin x) = Fin (sgn x * of_int \<lfloor>\<bar>x\<bar> * 100 + 1 / 2\<rfloor> / 100)"
| "round2 x = x"

section \<open>The data frame\<close>

text \<open>
  The panel reads the first series of its input; the model takes that frame as the input.
  A field is a named column; its vector answers \<open>get\<close> with \<open>undefined\<close> outside the
  stored range and \<open>toArray\<close> with the stored list.
\<close>

record field =
  name :: string
  "values" :: "jsval list"

record frame =
  frame_fields :: "field list"
  frame_length :: nat

definition vector_get :: "jsval list \<Rightarrow> int \<Rightarrow> jsval" where
  "vector_get buffer i = (if 0 \<le> i \<and> i < int (length buffer) then buffer ! nat i else Undefined)"

subsection \<open>The array helpers of d3\<close>

text \<open>\<open>d3.sum\<close> adds the numeric readings that are truthy, starting from zero.\<close>

definition d3_sum :: "jsval list \<Rightarrow> jsnum" where
  "d3_sum vs = foldl (\<lambda>s v. let x = ToNumber v in if truthy x then js_add s x else s) (Fin 0) vs"

text \<open>
  The comparisons of two stored values: two texts compare as strings, anything else by its
  numeric reading.
\<close>

definition js_ge :: "jsnum \<Rightarrow> jsnum \<Rightarrow> bool" where
  "js_ge x y = (js_lt y x \<or> (x = y \<and> x \<noteq> NaN))"

fun jsval_lt :: "jsval \<Rightarrow> jsval \<Rightarrow> bool" where
  "jsval_lt (Text a) (Text b) = (a < b)"
| "jsval_lt x y = js_lt (ToNumber x) (ToNumber y)"

fun jsval_ge :: "jsval \<Rightarrow> jsval \<Rightarrow> bool" where
  "jsval_ge (Text a) (Text b) = (b \<le> a)"
| "jsval_ge x y = js_ge (ToNumber x) (ToNumber y)"

text \<open>
  \<open>d3.extent\<close>: the least and the greatest value, skipping \<open>null\<close>, \<open>undefined\<close> and, until
  a first value is found, whatever is not comparable with itself; a pair of \<open>undefined\<close>
  when nothing is left.
\<close>

definition extent_step :: "jsval \<times> jsval \<Rightarrow> jsval \<Rightarrow> jsval \<times> jsval" where
  "extent_step mm v =
     (case mm of (mn, mx) \<Rightarrow>
        if v \<noteq> Null \<and> v \<noteq> Undefined then
          if mn = Undefined then (if jsval_ge v v then (v, v) else (mn, mx))
          else (if jsval_lt v mn then v else mn, if jsval_lt mx v then v else mx)
        else (mn, mx))"

definition d3_extent :: "jsval list \<Rightarrow> jsval \<times> jsval" where
  "d3_extent vs = foldl extent_step (Undefined, Undefined) vs"

section \<open>Configuration\<close>

datatype ChangeDirection = bottomToTop | topToBottom

definition CHART_REQUIRED_FIELDS :: "(string \<times> string) list" where
  "CHART_REQUIRED_FIELDS = [(''pivot'', ''pivot'')]"

definition CHART_REQUIRED_FIELDS_pivot :: string where
  "CHART_REQUIRED_FIELDS_pivot = ''pivot''"

definition COLOR_CELL_BY :: "(string \<times> nat) list" where
  "COLOR_CELL_BY = [(''change'', 0), (''heatmap'', 1)]"

definition COLOR_CELL_BY_change :: nat where
  "COLOR_CELL_BY_change = 0"

definition COLOR_CELL_BY_heatmap :: nat where
  "COLOR_CELL_BY_heatmap = 1"

definition COLOR_OPTIONS_SIZE :: nat where
  "COLOR_OPTIONS_SIZE = length (map fst COLOR_CELL_BY)"

record config =
  background :: string
  removeEmptyCols :: bool
  changeDirection :: ChangeDirection
  colorBy :: nat
  toggleColor :: bool
  referenceChange :: int

text \<open>The options of the panel, as the host passes them.\<close>

record HeatmapOptions =
  changeDirection :: ChangeDirection
  toggleColor :: bool

definition make_config :: "HeatmapOptions \<Rightarrow> config" where
  "make_config options =
     \<lparr> background = ''white'',
       removeEmptyCols = True,
       config.changeDirection = changeDirection options,
       colorBy = COLOR_CELL_BY_change,
       config.toggleColor = toggleColor options,
       referenceChange =
         (if changeDirection options = bottomToTop then 1 else - 1) \<rparr>"

section \<open>Accessors and chart field values\<close>

definition pivotAccesor :: "frame \<Rightarrow> field option" where
  "pivotAccesor fr = find (\<lambda>f. name f = CHART_REQUIRED_FIELDS_pivot) (frame_fields fr)"

definition baseCategoryFields :: "frame \<Rightarrow> field list" where
  "baseCategoryFields fr = filter (\<lambda>f. name f \<noteq> CHART_REQUIRED_FIELDS_pivot) (frame_fields fr)"

definition categoryFields :: "config \<Rightarrow> frame \<Rightarrow> field list" where
  "categoryFields cfg fr =
     (if \<not> removeEmptyCols cfg then baseCategoryFields fr
      else filter (\<lambda>f. js_gt (d3_sum (values f)) (Fin 0)) (baseCategoryFields fr))"

definition categories :: "config \<Rightarrow> frame \<Rightarrow> string list" where
  "categories cfg fr = map name (categoryFields cfg fr)"

definition pivotIndices :: "frame \<Rightarrow> int list" where
  "pivotIndices fr = map int [0 ..< frame_length fr]"

definition categoryExtent :: "config \<Rightarrow> frame \<Rightarrow> jsval \<times> jsval" where
  "categoryExtent cfg fr =
     d3_extent (concat (map (\<lambda>f. case d3_extent (values f) of (lo, hi) \<Rightarrow> [lo, hi])
                         (categoryFields cfg fr)))"

section \<open>Value formatting\<close>

text \<open>
  Reading a property of \<open>undefined\<close> throws a \<open>TypeError\<close>; the validation of the panel
  throws an \<open>Error\<close> with a message.
\<close>

datatype error = Error string | TypeError

record datum =
  category :: string
  pivotIndex :: int

record cell_values =
  currentValue :: jsnum
  referenceValue :: jsnum
  change :: jsnum

definition formatValue :: "config \<Rightarrow> frame \<Rightarrow> datum \<Rightarrow> error + jsnum" where
  "formatValue cfg fr d =
     (case find (\<lambda>f. name f = category d) (categoryFields cfg fr) of
        None \<Rightarrow> Inl TypeError
      | Some f \<Rightarrow> Inr (parseFloat (d3_format_2f (vector_get (values f) (pivotIndex d)))))"

definition getValues :: "config \<Rightarrow> frame \<Rightarrow> datum \<Rightarrow> error + cell_values" where
  "getValues cfg fr d =
     (let referenceIndex = pivotIndex d + referenceChange cfg
      in case formatValue cfg fr d of
           Inl e \<Rightarrow> Inl e
         | Inr cur \<Rightarrow>
             (case formatValue cfg fr \<lparr> category = category d, pivotIndex = referenceIndex \<rparr> of
                Inl e \<Rightarrow> Inl e
              | Inr r \<Rightarrow>
                  let ref = or_zero r;
                      chg = js_div (js_sub cur ref) ref
                  in Inr \<lparr> currentValue = cur, referenceValue = ref, change = chg \<rparr>))"

section \<open>Chart elements: the two colour scales\<close>

text \<open>
  A colour is its three channels; d3 prints it as the text \<open>rgb(r, g, b)\<close>. A scale answers
  \<open>undefined\<close> (here \<open>None\<close>) for NaN.
\<close>

datatype color = Rgb int int int

definition red :: color where
  "red = Rgb 255 0 0"

definition pale_yellow :: color where
  "pale_yellow = Rgb 250 248 193"

definition green :: color where
  "green = Rgb 0 128 0"

text \<open>A channel is printed rounded and cut to \<open>0 .. 255\<close>, NaN as 0.\<close>

fun channel :: "jsnum \<Rightarrow> int" where
  "channel (Fin x) = max 0 (min 255 \<lfloor>x + 1 / 2\<rfloor>)"
| "channel PosInf = 255"
| "channel NegInf = 0"
| "channel NaN = 0"

text \<open>\<open>d3.interpolateRgb\<close>: each channel runs linearly from the first colour to the second.\<close>

definition nogamma :: "int \<Rightarrow> int \<Rightarrow> jsnum \<Rightarrow> jsnum" where
  "nogamma a b t =
     (let d = b - a
      in if d \<noteq> 0 then js_add (Fin (of_int a)) (js_mul t (Fin (of_int d))) else Fin (of_int a))"

fun interpolateRgb :: "color \<Rightarrow> color \<Rightarrow> jsnum \<Rightarrow> color" where
  "interpolateRgb (Rgb r1 g1 b1) (Rgb r2 g2 b2) t =
     Rgb (channel (nogamma r1 r2 t)) (channel (nogamma g1 g2 t)) (channel (nogamma b1 b2 t))"

definition normalize :: "rat \<Rightarrow> rat \<Rightarrow> jsnum \<Rightarrow> jsnum" where
  "normalize a b x =
     (if b - a \<noteq> 0 then js_div (js_sub x (Fin a)) (Fin (b - a)) else Fin (1 / 2))"

text \<open>
  \<open>colorByChange\<close>: the linear scale with domain \<open>[-1.5, 0, 1.5]\<close> and range
  \<open>[red, rgb(250, 248, 193), green]\<close>. The scale picks the segment by bisecting the domain
  (the first segment left of 0, the second from 0 on) and is not clamped.
\<close>

definition colorByChange :: "jsnum \<Rightarrow> color option" where
  "colorByChange x =
     (if x = NaN then None
      else if js_gt (Fin 0) x
        then Some (interpolateRgb red pale_yellow (normalize (- (3 / 2)) 0 x))
        else Some (interpolateRgb pale_yellow green (normalize 0 (3 / 2) x)))"

text \<open>
  \<open>colorAsHeatmap\<close>: the sequential scale over \<open>categoryExtent\<close>, whose interpolator is
  \<open>d3.interpolateBlues\<close> behind \<open>d3.interpolate(0, 0.7)\<close>. The palette \<open>interpolateBlues\<close>
  is a parameter of the model.
\<close>

definition clampColorRange :: "jsnum \<Rightarrow> jsnum" where
  "clampColorRange t = js_add (js_mul (Fin 0) (js_sub (Fin 1) t)) (js_mul (Fin (7 / 10)) t)"

definition colorAsHeatmap :: "(jsnum \<Rightarrow> color) \<Rightarrow> jsval \<times> jsval \<Rightarrow> jsnum \<Rightarrow> color option" where
  "colorAsHeatmap interpolateBlues ext x =
     (let t0 = ToNumber (fst ext);
          t1 = ToNumber (snd ext);
          k10 = (if t0 = t1 \<and> t0 \<noteq> NaN then Fin 0 else js_div (Fin 1) (js_sub t1 t0))
      in if x = NaN then None
         else Some (interpolateBlues (clampColorRange
                (if k10 = Fin 0 then Fin (1 / 2) else js_mul (js_sub x t0) k10))))"

section \<open>The chart\<close>

definition colorChange :: "config \<Rightarrow> frame \<Rightarrow> datum \<Rightarrow> error + color option" where
  "colorChange cfg fr d =
     (case getValues cfg fr d of
        Inl e \<Rightarrow> Inl e
      | Inr v \<Rightarrow>
          let clampedChange =
                (if js_gt (change v) (Fin 1) then Fin 1
                 else if js_lt (change v) (Fin (- 1)) then Fin (- 1)
                 else change v)
          in Inr (if currentValue v = Fin 0 then colorByChange (Fin 0)
                  else if referenceValue v = Fin 0 then colorByChange (Fin (1 / 2))
                  else colorByChange clampedChange))"

definition colorHeatmap ::
  "(jsnum \<Rightarrow> color) \<Rightarrow> config \<Rightarrow> frame \<Rightarrow> datum \<Rightarrow> error + color option" where
  "colorHeatmap interpolateBlues cfg fr d =
     (case getValues cfg fr d of
        Inl e \<Rightarrow> Inl e
      | Inr v \<Rightarrow> Inr (colorAsHeatmap interpolateBlues (categoryExtent cfg fr) (currentValue v)))"

definition getColor ::
  "(jsnum \<Rightarrow> color) \<Rightarrow> config \<Rightarrow> frame \<Rightarrow> datum \<Rightarrow> error + color option" where
  "getColor interpolateBlues cfg fr d =
     (if colorBy cfg = COLOR_CELL_BY_change then colorChange cfg fr d
      else if colorBy cfg = COLOR_CELL_BY_heatmap then colorHeatmap interpolateBlues cfg fr d
      else Inr None)"

text \<open>
  The drawn matrix. A cell keeps its datum, the fill of its rectangle, the value behind its
  tooltip and its two text lines: the value line with its offset, and the change line, which
  has an offset and a text only when it is drawn. Positions and sizes are left out. The
  label formats \<open>d3.format('.3~s')\<close> and \<open>d3.format('.1%')\<close> are reached through the
  parameter \<open>d3_format\<close>, applied to the specifier.
\<close>

record matrix_cell =
  datum :: datum
  fill :: "color option"
  title :: jsnum
  value_dy :: string
  value_text :: string
  change_line :: "(string \<times> string) option"

definition value_line :: "(string \<Rightarrow> jsnum \<Rightarrow> string) \<Rightarrow> cell_values \<Rightarrow> string \<times> string" where
  "value_line d3_format v =
     (if truthy (currentValue v) \<and> truthy (referenceValue v) then ''-0.4em'' else ''.35em'',
      if truthy (currentValue v) then d3_format ''.3~s'' (currentValue v) else ''-'')"

definition percent_line ::
  "(string \<Rightarrow> jsnum \<Rightarrow> string) \<Rightarrow> cell_values \<Rightarrow> (string \<times> string) option" where
  "percent_line d3_format v =
     (if truthy (currentValue v) \<and> truthy (referenceValue v)
      then Some (''1em'', d3_format ''.1%'' (change v))
      else None)"

definition draw_cell ::
  "(string \<Rightarrow> jsnum \<Rightarrow> string) \<Rightarrow> (jsnum \<Rightarrow> color) \<Rightarrow> config \<Rightarrow> frame \<Rightarrow> datum
     \<Rightarrow> error + matrix_cell" where
  "draw_cell d3_format interpolateBlues cfg fr d =
     (case getColor interpolateBlues cfg fr d of
        Inl e \<Rightarrow> Inl e
      | Inr c \<Rightarrow>
          (case formatValue cfg fr d of
             Inl e \<Rightarrow> Inl e
           | Inr t \<Rightarrow>
               (case getValues cfg fr d of
                  Inl e \<Rightarrow> Inl e
                | Inr v \<Rightarrow>
                    Inr \<lparr> datum = d, fill = c, title = t,
                          value_dy = fst (value_line d3_format v),
                          value_text = snd (value_line d3_format v),
                          change_line = percent_line d3_format v \<rparr>)))"

text \<open>Running a drawing step over a list stops at the first error.\<close>

fun each :: "('a \<Rightarrow> error + 'b) \<Rightarrow> 'a list \<Rightarrow> error + 'b list" where
  "each f [] = Inr []"
| "each f (x # xs) =
     (case f x of
        Inl e \<Rightarrow> Inl e
      | Inr y \<Rightarrow> (case each f xs of Inl e \<Rightarrow> Inl e | Inr ys \<Rightarrow> Inr (y # ys)))"

definition matrix_data :: "config \<Rightarrow> frame \<Rightarrow> datum list" where
  "matrix_data cfg fr =
     concat (map (\<lambda>i. map (\<lambda>c. \<lparr> category = c, pivotIndex = i \<rparr>) (categories cfg fr))
               (pivotIndices fr))"

definition chart ::
  "(string \<Rightarrow> jsnum \<Rightarrow> string) \<Rightarrow> (jsnum \<Rightarrow> color) \<Rightarrow> config \<Rightarrow> frame
     \<Rightarrow> error + matrix_cell list" where
  "chart d3_format interpolateBlues cfg fr =
     each (draw_cell d3_format interpolateBlues cfg fr) (matrix_data cfg fr)"

text \<open>
  The panel: its mutable configuration, the domains of the two band scales and the drawn
  cells.
\<close>

record panel =
  panel_config :: config
  x_domain :: "string list"
  y_domain :: "jsval list"
  cells :: "matrix_cell list"

fun join :: "string \<Rightarrow> string list \<Rightarrow> string" where
  "join sep [] = []"
| "join sep [x] = x"
| "join sep (x # y # ys) = x @ sep @ join sep (y # ys)"

definition HeatmapPanel ::
  "(string \<Rightarrow> jsnum \<Rightarrow> string) \<Rightarrow> (jsnum \<Rightarrow> color) \<Rightarrow> HeatmapOptions \<Rightarrow> frame
     \<Rightarrow> error + panel" where
  "HeatmapPanel d3_format interpolateBlues options fr =
     (let cfg = make_config options
      in case pivotAccesor fr of
           None \<Rightarrow>
             Inl (Error (''Required fields not present: ''
                          @ join '', '' (map fst CHART_REQUIRED_FIELDS)))
         | Some p \<Rightarrow>
             (case chart d3_format interpolateBlues cfg fr of
                Inl e \<Rightarrow> Inl e
              | Inr cs \<Rightarrow>
                  Inr \<lparr> panel_config = cfg, x_domain = categories cfg fr,
                        y_domain = values p, cells = cs \<rparr>))"

text \<open>
  A click on a cell. With the toggle switched off nothing happens; otherwise the colour mode
  advances and every cell is filled again under the new mode (the fill at the end of the
  transition).
\<close>

definition refill ::
  "(jsnum \<Rightarrow> color) \<Rightarrow> config \<Rightarrow> frame \<Rightarrow> matrix_cell \<Rightarrow> error + matrix_cell" where
  "refill interpolateBlues cfg fr c =
     (case getColor interpolateBlues cfg fr (datum c) of
        Inl e \<Rightarrow> Inl e
      | Inr col \<Rightarrow> Inr (c \<lparr> fill := col \<rparr>))"

definition toggleColoring :: "(jsnum \<Rightarrow> color) \<Rightarrow> frame \<Rightarrow> panel \<Rightarrow> error + panel" where
  "toggleColoring interpolateBlues fr st =
     (if \<not> config.toggleColor (panel_config st) then Inr st
      else
        let cfg = (panel_config st)
                    \<lparr> colorBy := (colorBy (panel_config st) + 1) mod COLOR_OPTIONS_SIZE \<rparr>
        in case each (refill interpolateBlues cfg fr) (cells st) of
             Inl e \<Rightarrow> Inl e
           | Inr cs \<Rightarrow> Inr (st \<lparr> panel_config := cfg, cells := cs \<rparr>))"

section \<open>Notions of the specification\<close>

text \<open>
  The reference row lies one row below the current one when changes run bottom to top, one
  row above when they run top to bottom.
\<close>

definition referenceOffset :: "ChangeDirection \<Rightarrow> int" where
  "referenceOffset dir = (case dir of bottomToTop \<Rightarrow> 1 | topToBottom \<Rightarrow> - 1)"



text \<open>The table of the scenario: pivot column A, B, C and one category column X.\<close>

definition scenario :: frame where
  "scenario =
     \<lparr> frame_fields =
         [\<lparr> name = ''pivot'', values = [Text ''A'', Text ''B'', Text ''C''] \<rparr>,
          \<lparr> name = ''X'', values = [Number (Fin 10), Number (Fin 20), Number (Fin 0)] \<rparr>],
       frame_length = 3 \<rparr>"

text \<open>A table with a short column X, whose first row has no row above it.\<close>

definition edge_table :: frame where
  "edge_table =
     \<lparr> frame_fields =
         [\<lparr> name = ''pivot'', values = [Text ''A'', Text ''B''] \<rparr>,
          \<lparr> name = ''X'', values = [Number (Fin 20), Number (Fin 5)] \<rparr>],
       frame_length = 2 \<rparr>"

text \<open>A table whose column X holds a NaN measurement.\<close>

definition nan_table :: frame where
  "nan_table =
     \<lparr> frame_fields =
         [\<lparr> name = ''pivot'', values = [Text ''A'', Text ''B''] \<rparr>,
          \<lparr> name = ''X'', values = [Number NaN, Number (Fin 5)] \<rparr>],
       frame_length = 2 \<rparr>"


text \<open>A table without a pivot column.\<close>

definition keyless_table :: frame where
  "keyless_table =
     \<lparr> frame_fields = [\<lparr> name = ''X'', values = [Number (Fin 1), Number (Fin 2)] \<rparr>],
       frame_length = 2 \<rparr>"

text \<open>
  Stand-ins for the two parameters where a closed statement needs them: a formatter that
  prints its specifier, and a palette of greys.
\<close>

definition sample_format :: "string \<Rightarrow> jsnum \<Rightarrow> string" where
  "sample_format spec x = spec"

definition sample_palette :: "jsnum \<Rightarrow> color" where
  "sample_palette t =
     Rgb (channel (js_mul t (Fin 255))) (channel (js_mul t (Fin 255))) (channel (js_mul t (Fin 255)))"


text \<open>
  Component-wise linear interpolation between two colours at the parameter \<open>t\<close>, each
  channel rounded to the nearest integer and kept within \<open>0 .. 255\<close>; and the
  piecewise-linear scale through the control points \<open>-1.5\<close> (red), \<open>0\<close> (pale yellow) and
  \<open>1.5\<close> (green).
\<close>

definition mix_channel :: "int \<Rightarrow> int \<Rightarrow> rat \<Rightarrow> int" where
  "mix_channel a b t = max 0 (min 255 \<lfloor>of_int a + t * of_int (b - a) + 1 / 2\<rfloor>)"

fun mix :: "color \<Rightarrow> color \<Rightarrow> rat \<Rightarrow> color" where
  "mix (Rgb r1 g1 b1) (Rgb r2 g2 b2) t =
     Rgb (mix_channel r1 r2 t) (mix_channel g1 g2 t) (mix_channel b1 b2 t)"

definition change_scale :: "rat \<Rightarrow> color" where
  "change_scale x =
     (if x < 0 then mix red pale_yellow ((x + 3 / 2) / (3 / 2))
      else mix pale_yellow green (x / (3 / 2)))"

text \<open>
  A panel state is coherent when its colour mode is one of the two modes and every cell
  carries the fill that \<open>getColor\<close> computes for it under that mode.
\<close>

definition panel_ok :: "(jsnum \<Rightarrow> color) \<Rightarrow> frame \<Rightarrow> panel \<Rightarrow> bool" where
  "panel_ok interpolateBlues fr st =
     (colorBy (panel_config st) < COLOR_OPTIONS_SIZE \<and>
      list_all (\<lambda>c. getColor interpolateBlues (panel_config st) fr (datum c) = Inr (fill c))
        (cells st))"

section \<open>Formatting and reading back a number\<close>

lemma is_digit_digit_char: "d < 10 \<Longrightarrow> is_digit (digit_char d)"
  by (simp add: is_digit_def digit_char_def)

lemma digit_value_digit_char: "d < 10 \<Longrightarrow> digit_value (digit_char d) = d"
  by (simp add: digit_value_def digit_char_def)

lemma showNat_digits: "\<forall>c \<in> set (showNat n). is_digit c"
proof (induction n rule: showNat.induct)
  case (1 n)
  show ?case
  proof (cases "n < 10")
    case True
    then show ?thesis by (subst showNat.simps) (simp add: is_digit_digit_char)
  next
    case False
    with 1 show ?thesis
      by (subst showNat.simps) (simp add: is_digit_digit_char)
  qed
qed

lemma showNat_nonempty: "showNat n \<noteq> []"
  by (subst showNat.simps) simp

lemma dec_value_foldl:
  "foldl (\<lambda>a c. 10 * a + digit_value c) k s = k * 10 ^ length s + dec_value s"
  unfolding dec_value_def
proof (induction s arbitrary: k)
  case Nil
  show ?case by simp
next
  case (Cons c s)
  have "foldl (\<lambda>a c. 10 * a + digit_value c) (10 * k + digit_value c) s
        = (10 * k + digit_value c) * 10 ^ length s + foldl (\<lambda>a c. 10 * a + digit_value c) 0 s"
    by (rule Cons.IH)
  moreover have "foldl (\<lambda>a c. 10 * a + digit_value c) (digit_value c) s
        = digit_value c * 10 ^ length s + foldl (\<lambda>a c. 10 * a + digit_value c) 0 s"
    by (rule Cons.IH)
  ultimately show ?case
    by (simp add: distrib_right)
qed

lemma dec_value_append:
  "dec_value (xs @ ys) = dec_value xs * 10 ^ length ys + dec_value ys"
proof -
  have "dec_value (xs @ ys) = foldl (\<lambda>a c. 10 * a + digit_value c) (dec_value xs) ys"
    by (simp add: dec_value_def)
  then show ?thesis
    by (simp only: dec_value_foldl)
qed

lemma dec_value_single: "dec_value [c] = digit_value c"
  by (simp add: dec_value_def)

lemma dec_value_showNat: "dec_value (showNat n) = n"
proof (induction n rule: showNat.induct)
  case (1 n)
  show ?case
  proof (cases "n < 10")
    case True
    then show ?thesis by (subst showNat.simps) (simp add: dec_value_single digit_value_digit_char)
  next
    case False
    with 1 have "dec_value (showNat (n div 10)) = n div 10" by simp
    with False show ?thesis
      by (subst showNat.simps) (simp add: dec_value_append dec_value_single digit_value_digit_char)
  qed
qed

lemma dec_value_zeros: "dec_value (replicate k (CHR ''0'') @ m) = dec_value m"
proof (induction k)
  case 0
  show ?case by simp
next
  case (Suc k)
  have "dec_value (CHR ''0'' # replicate k (CHR ''0'') @ m)
        = dec_value (replicate k (CHR ''0'') @ m)"
    using dec_value_append [of "[CHR ''0'']" "replicate k (CHR ''0'') @ m"]
    by (simp add: dec_value_single digit_value_def)
  with Suc show ?case by simp
qed

lemma toFixed2_shape:
  "\<exists>a b. toFixed2 x = a @ ''.'' @ b \<and> a \<noteq> [] \<and> (\<forall>c \<in> set a. is_digit c) \<and>
         (\<forall>c \<in> set b. is_digit c) \<and> length b = 2 \<and>
         dec_value a * 100 + dec_value b = nat \<lfloor>x * 100 + 1 / 2\<rfloor>"
proof -
  define n where "n = nat \<lfloor>x * 100 + 1 / 2\<rfloor>"
  define m where "m = showNat n"
  define m' where "m' = replicate (3 - length m) (CHR ''0'') @ m"
  define a where "a = take (length m' - 2) m'"
  define b where "b = drop (length m' - 2) m'"
  have len: "3 \<le> length m'" by (simp add: m'_def)
  have ab: "a @ b = m'" by (simp add: a_def b_def)
  have digs: "\<forall>c \<in> set m'. is_digit c"
    using showNat_digits [of n] by (auto simp: m'_def m_def is_digit_def)
  have val: "dec_value m' = n"
    by (simp add: m'_def m_def dec_value_zeros dec_value_showNat)
  have lb: "length b = 2" using len by (simp add: b_def)
  have la: "a \<noteq> []" using len by (auto simp: a_def)
  have "set a \<subseteq> set m'" "set b \<subseteq> set m'"
    by (simp_all add: a_def b_def set_take_subset set_drop_subset)
  with digs have da: "\<forall>c \<in> set a. is_digit c" and db: "\<forall>c \<in> set b. is_digit c"
    by auto
  have "dec_value a * 100 + dec_value b = dec_value (a @ b)"
    by (simp add: dec_value_append lb)
  with ab val have v: "dec_value a * 100 + dec_value b = n" by simp
  have "toFixed2 x = a @ ''.'' @ b"
    by (simp add: toFixed2_def Let_def a_def b_def m'_def m_def n_def)
  with la da db lb v show ?thesis
    unfolding n_def by blast
qed

lemma parse_unsigned_fixed:
  assumes "a \<noteq> []" "\<forall>c \<in> set a. is_digit c" "\<forall>c \<in> set b. is_digit c"
  shows "parse_unsigned (a @ ''.'' @ b)
         = Fin (of_nat (dec_value a) + of_nat (dec_value b) / 10 ^ length b)"
proof -
  obtain c a' where a: "a = c # a'" using assms(1) by (cases a) auto
  with assms(2) have "is_digit c" by simp
  then have "c \<noteq> CHR ''I''" by (auto simp: is_digit_def)
  then have inf: "take 8 (a @ ''.'' @ b) \<noteq> ''Infinity''" by (simp add: a)
  have nd: "\<not> is_digit (CHR ''.'')" by (simp add: is_digit_def)
  have tw: "takeWhile is_digit (a @ ''.'' @ b) = a"
    using assms(2) nd by (simp add: takeWhile_append2)
  have dw: "dropWhile is_digit (a @ ''.'' @ b) = ''.'' @ b"
    using assms(2) nd by (simp add: dropWhile_append2)
  have twb: "takeWhile is_digit b = b" using assms(3) by (simp add: takeWhile_eq_all_conv)
  have dwb: "dropWhile is_digit b = []" using assms(3) by simp
  show ?thesis
    unfolding parse_unsigned_def Let_def tw dw
    using inf assms(1) by (simp add: twb dwb exponent_part_def scale10_def)
qed

lemma parseFloat_toFixed2:
  "parseFloat (toFixed2 x) = Fin (of_nat (nat \<lfloor>x * 100 + 1 / 2\<rfloor>) / 100)"
  and parseFloat_minus_toFixed2:
  "parseFloat (''-'' @ toFixed2 x) = Fin (- (of_nat (nat \<lfloor>x * 100 + 1 / 2\<rfloor>) / 100))"
proof -
  obtain a b where s: "toFixed2 x = a @ ''.'' @ b" and a: "a \<noteq> []"
    and da: "\<forall>c \<in> set a. is_digit c" and db: "\<forall>c \<in> set b. is_digit c"
    and lb: "length b = 2"
    and v: "dec_value a * 100 + dec_value b = nat \<lfloor>x * 100 + 1 / 2\<rfloor>"
    using toFixed2_shape [of x] by blast
  obtain c a' where ac: "a = c # a'" using a by (cases a) auto
  with da have dc: "is_digit c" by simp
  then have c: "\<not> is_space c" "c \<noteq> CHR ''-''" "c \<noteq> CHR ''+''"
    by (auto simp: is_digit_def is_space_def)
  have "of_nat (dec_value a) + of_nat (dec_value b) / 10 ^ length b
        = (of_nat (dec_value a * 100 + dec_value b) :: rat) / 100"
    by (simp add: lb add_divide_distrib)
  then have p: "parse_unsigned (toFixed2 x) = Fin (of_nat (nat \<lfloor>x * 100 + 1 / 2\<rfloor>) / 100)"
    using parse_unsigned_fixed [OF a da db] s v by simp
  show "parseFloat (toFixed2 x) = Fin (of_nat (nat \<lfloor>x * 100 + 1 / 2\<rfloor>) / 100)"
    using c p [unfolded s ac] by (simp add: parseFloat_def s ac)
  have "\<not> is_space (CHR ''-'')" by (simp add: is_space_def)
  then show "parseFloat (''-'' @ toFixed2 x) = Fin (- (of_nat (nat \<lfloor>x * 100 + 1 / 2\<rfloor>) / 100))"
    using p by (simp add: parseFloat_def)
qed

lemma parseFloat_format_2f: "parseFloat (d3_format_2f v) = round2 (ToNumber v)"
proof (cases "ToNumber v")
  case (Fin x)
  define y where "y = \<bar>x\<bar>"
  define n where "n = \<lfloor>y * 100 + 1 / 2\<rfloor>"
  have "0 \<le> y" by (simp add: y_def)
  then have nn: "0 \<le> n" by (simp add: n_def)
  then have on: "(of_nat (nat n) :: rat) = of_int n" by simp
  have pf: "parseFloat (toFixed2 y) = Fin (of_int n / 100)"
    using parseFloat_toFixed2 [of y] on by (simp only: n_def)
  have pm: "parseFloat (''-'' @ toFixed2 y) = Fin (- (of_int n / 100))"
    using parseFloat_minus_toFixed2 [of y] on by (simp only: n_def)
  have fmt: "d3_format_2f v = (if x < 0 \<and> n \<noteq> 0 then ''-'' @ toFixed2 y else toFixed2 y)"
    using pf by (simp add: d3_format_2f_def Fin Let_def y_def [symmetric])
  have r: "round2 (ToNumber v) = Fin (sgn x * of_int n / 100)"
    by (simp add: Fin n_def y_def)
  show ?thesis
  proof (cases "x < 0 \<and> n \<noteq> 0")
    case True
    then show ?thesis
      using pm by (simp only: fmt r if_True) (simp add: sgn_if)
  next
    case False
    have "sgn x * of_int n = of_int n"
    proof (cases "x = 0")
      case True
      then have "n = 0" by (simp add: n_def y_def floor_eq_iff)
      then show ?thesis by simp
    next
      case nz: False
      with False have "n = 0 \<or> 0 < x" by auto
      then show ?thesis by (auto simp: sgn_if)
    qed
    then show ?thesis
      using pf False by (simp only: fmt r if_False)
  qed
next
  case PosInf
  then show ?thesis
    by (simp add: d3_format_2f_def parseFloat_def parse_unsigned_def is_space_def)
next
  case NegInf
  then show ?thesis
    by (simp add: d3_format_2f_def parseFloat_def parse_unsigned_def is_space_def)
next
  case NaN
  then show ?thesis
    by (simp add: d3_format_2f_def parseFloat_def parse_unsigned_def is_space_def is_digit_def)
qed


text \<open>What \<open>round2\<close> returns on a finite number is a multiple of \<open>0.01\<close> at most \<open>0.005\<close> away.\<close>

lemma round2_nearest:
  assumes "round2 (Fin x) = Fin r"
  shows "\<bar>r - x\<bar> \<le> 1 / 200" and "of_int \<lfloor>r * 100\<rfloor> = r * 100"
proof -
  define n where "n = \<lfloor>\<bar>x\<bar> * 100 + 1 / 2\<rfloor>"
  from assms have r: "r = sgn x * of_int n / 100"
    by (simp add: n_def)
  have lo: "of_int n \<le> \<bar>x\<bar> * 100 + 1 / 2" and hi: "\<bar>x\<bar> * 100 + 1 / 2 < of_int n + 1"
    unfolding n_def by linarith+
  then have "of_int n / 100 - \<bar>x\<bar> \<le> 1 / 200" and "- (1 / 200) \<le> of_int n / 100 - \<bar>x\<bar>"
    by (simp_all add: field_simps)
  then have d: "\<bar>of_int n / 100 - \<bar>x\<bar>\<bar> \<le> 1 / 200"
    by (simp only: abs_le_iff) (simp add: field_simps)
  show "\<bar>r - x\<bar> \<le> 1 / 200"
  proof (cases "x < 0")
    case True
    then have "r - x = - (of_int n / 100 - \<bar>x\<bar>)" by (simp add: r)
    then have "\<bar>r - x\<bar> = \<bar>of_int n / 100 - \<bar>x\<bar>\<bar>" by (simp only: abs_minus_cancel)
    with d show ?thesis by (simp only:)
  next
    case False
    show ?thesis
    proof (cases "x = 0")
      case True
      then show ?thesis by (simp add: r)
    next
      case nz: False
      with False have "r - x = of_int n / 100 - \<bar>x\<bar>" by (simp add: r)
      with d show ?thesis by (simp only:)
    qed
  qed
  have "r * 100 = of_int (if x = 0 then 0 else if 0 < x then n else - n)"
    by (simp add: r sgn_if)
  then show "of_int \<lfloor>r * 100\<rfloor> = r * 100"
    by (simp only: floor_of_int)
qed

section \<open>Looking a cell up\<close>

lemma find_category:
  assumes "c \<in> set (categories cfg fr)"
  shows "\<exists>f. find (\<lambda>f. name f = c) (categoryFields cfg fr) = Some f \<and> name f = c
             \<and> f \<in> set (categoryFields cfg fr)"
proof -
  from assms obtain g where "g \<in> set (categoryFields cfg fr)" "name g = c"
    by (auto simp: categories_def)
  then have "find (\<lambda>f. name f = c) (categoryFields cfg fr) \<noteq> None"
    by (auto simp: find_None_iff)
  then obtain f where f: "find (\<lambda>f. name f = c) (categoryFields cfg fr) = Some f"
    by auto
  then have "name f = c \<and> f \<in> set (categoryFields cfg fr)"
    by (auto simp: find_Some_iff)
  with f show ?thesis by blast
qed

lemma formatValue_at:
  assumes "find (\<lambda>f. name f = category d) (categoryFields cfg fr) = Some f"
  shows "formatValue cfg fr d = Inr (round2 (ToNumber (vector_get (values f) (pivotIndex d))))"
  using assms by (simp add: formatValue_def parseFloat_format_2f)

lemma getValues_at:
  assumes "find (\<lambda>f. name f = category d) (categoryFields cfg fr) = Some f"
  shows "getValues cfg fr d
         = (let cur = round2 (ToNumber (vector_get (values f) (pivotIndex d)));
                ref = or_zero (round2 (ToNumber (vector_get (values f)
                                 (pivotIndex d + referenceChange cfg))))
            in Inr \<lparr> currentValue = cur, referenceValue = ref,
                     change = js_div (js_sub cur ref) ref \<rparr>)"
proof -
  have "formatValue cfg fr \<lparr> category = category d, pivotIndex = pivotIndex d + referenceChange cfg \<rparr>
        = Inr (round2 (ToNumber (vector_get (values f) (pivotIndex d + referenceChange cfg))))"
    using assms by (simp add: formatValue_def parseFloat_format_2f)
  then show ?thesis
    by (simp add: getValues_def Let_def formatValue_at [OF assms])
qed

lemma formatValue_found:
  assumes "find (\<lambda>f. name f = c) (categoryFields cfg fr) = Some f"
  shows "formatValue cfg fr \<lparr> category = c, pivotIndex = i \<rparr>
         = Inr (round2 (ToNumber (vector_get (values f) i)))"
  using assms formatValue_at [of "\<lparr> category = c, pivotIndex = i \<rparr>" cfg fr f] by simp

lemma getValues_found:
  assumes "find (\<lambda>f. name f = c) (categoryFields cfg fr) = Some f"
  shows "getValues cfg fr \<lparr> category = c, pivotIndex = i \<rparr>
         = (let cur = round2 (ToNumber (vector_get (values f) i));
                ref = or_zero (round2 (ToNumber (vector_get (values f) (i + referenceChange cfg))))
            in Inr \<lparr> currentValue = cur, referenceValue = ref,
                     change = js_div (js_sub cur ref) ref \<rparr>)"
  using assms getValues_at [of "\<lparr> category = c, pivotIndex = i \<rparr>" cfg fr f] by simp

lemma getValues_category:
  assumes "category d \<in> set (categories cfg fr)"
  shows "\<exists>v. getValues cfg fr d = Inr v"
proof -
  from find_category [OF assms] obtain f
    where f: "find (\<lambda>f. name f = category d) (categoryFields cfg fr) = Some f" by blast
  show ?thesis
    by (simp add: getValues_at [OF f] Let_def)
qed

lemma formatValue_missing:
  assumes "c \<notin> set (categories cfg fr)"
  shows "formatValue cfg fr \<lparr> category = c, pivotIndex = i \<rparr> = Inl TypeError"
proof -
  have "find (\<lambda>f. name f = c) (categoryFields cfg fr) = None"
    using assms by (auto simp: find_None_iff categories_def)
  then show ?thesis by (simp add: formatValue_def)
qed


lemma referenceChange_make_config:
  "referenceChange (make_config options) = referenceOffset (changeDirection options)"
  by (cases "changeDirection options") (simp_all add: make_config_def referenceOffset_def)

lemma floor_rat_divide_numeral [simp]:
  "\<lfloor>(numeral a :: rat) / numeral b\<rfloor> = numeral a div numeral b"
  by (metis floor_divide_of_int_eq of_int_numeral)

lemma floor_rat_one_divide_numeral [simp]:
  "\<lfloor>(1 :: rat) / numeral b\<rfloor> = 1 div numeral b"
  by (metis floor_divide_of_int_eq of_int_1 of_int_numeral)

lemma floor_rat_minus_divide_numeral [simp]:
  "\<lfloor>- ((numeral a :: rat) / numeral b)\<rfloor> = - numeral a div numeral b"
  by (metis floor_divide_of_int_eq of_int_numeral of_int_minus minus_divide_left)

lemma or_zero_NaN [simp]: "or_zero NaN = Fin 0"
  by (simp add: or_zero_def)

lemma or_zero_zero [simp]: "or_zero (Fin 0) = Fin 0"
  by (simp add: or_zero_def)

lemma or_zero_not_NaN: "or_zero x \<noteq> NaN"
  by (cases x) (simp_all add: or_zero_def)

lemma truthy_iff: "truthy x \<longleftrightarrow> x \<noteq> Fin 0 \<and> x \<noteq> NaN"
  by (cases x) auto

lemma removeEmptyCols_make_config [simp]: "removeEmptyCols (make_config options)"
  by (simp add: make_config_def)

lemma getValues_reference_not_NaN:
  assumes "getValues cfg fr d = Inr v"
  shows "referenceValue v \<noteq> NaN"
  using assms or_zero_not_NaN
  by (auto simp: getValues_def Let_def split: sum.splits)

lemma scenario_fields:
  "categoryFields (make_config options) scenario
   = [\<lparr> name = ''X'', values = [Number (Fin 10), Number (Fin 20), Number (Fin 0)] \<rparr>]"
  by (simp add: categoryFields_def baseCategoryFields_def scenario_def d3_sum_def js_gt_def
      CHART_REQUIRED_FIELDS_pivot_def)

lemma scenario_find:
  "find (\<lambda>f. name f = ''X'') (categoryFields (make_config options) scenario)
   = Some \<lparr> name = ''X'', values = [Number (Fin 10), Number (Fin 20), Number (Fin 0)] \<rparr>"
  by (simp add: scenario_fields)

lemma scenario_values:
  "getValues (make_config options) scenario \<lparr> category = ''X'', pivotIndex = i \<rparr>
   = (let vs = [Number (Fin 10), Number (Fin 20), Number (Fin 0)];
          cur = round2 (ToNumber (vector_get vs i));
          ref = or_zero (round2 (ToNumber (vector_get vs (i + referenceOffset (changeDirection options)))))
      in Inr \<lparr> currentValue = cur, referenceValue = ref, change = js_div (js_sub cur ref) ref \<rparr>)"
  by (simp add: getValues_found [OF scenario_find] referenceChange_make_config Let_def)

lemma scenario_first_cell:
  "getValues (make_config \<lparr> changeDirection = bottomToTop, toggleColor = t \<rparr>) scenario
     \<lparr> category = ''X'', pivotIndex = 0 \<rparr>
   = Inr \<lparr> currentValue = Fin 10, referenceValue = Fin 20, change = Fin (- (1 / 2)) \<rparr>"
  by (simp add: scenario_values referenceOffset_def vector_get_def Let_def or_zero_def js_sub_def)

lemma nan_table_find:
  "find (\<lambda>f. name f = ''X'') (categoryFields (make_config options) nan_table)
   = Some \<lparr> name = ''X'', values = [Number NaN, Number (Fin 5)] \<rparr>"
  by (simp add: categoryFields_def baseCategoryFields_def nan_table_def d3_sum_def js_gt_def
      CHART_REQUIRED_FIELDS_pivot_def)

lemma nan_table_values:
  "getValues (make_config \<lparr> changeDirection = bottomToTop, toggleColor = True \<rparr>) nan_table
     \<lparr> category = ''X'', pivotIndex = 0 \<rparr>
   = Inr \<lparr> currentValue = NaN, referenceValue = Fin 5, change = NaN \<rparr>"
  by (subst getValues_found [OF nan_table_find])
    (simp add: referenceChange_make_config referenceOffset_def vector_get_def Let_def or_zero_def
      js_sub_def)

lemma colorBy_make_config [simp]: "colorBy (make_config options) = COLOR_CELL_BY_change"
  by (simp add: make_config_def)

section \<open>The cell value engine\<close>




text \<open>
  Claim C9. For a category name of the pruned category set, the derivation of the cell
  values raises no error: both look-ups of \<open>formatValue\<close>, at the current index and at the
  reference index, and \<open>getValues\<close> itself return a value. This holds at every index, so in
  particular at the indices in \<open>[0, rowCount)\<close>, whose reference index may be out of range.
\<close>

theorem getValues_total:
  assumes "c \<in> set (categories cfg fr)"
  shows "\<exists>cur r v. formatValue cfg fr \<lparr> category = c, pivotIndex = i \<rparr> = Inr cur
           \<and> formatValue cfg fr \<lparr> category = c, pivotIndex = i + referenceChange cfg \<rparr> = Inr r
           \<and> getValues cfg fr \<lparr> category = c, pivotIndex = i \<rparr> = Inr v"
proof -
  from find_category [OF assms] obtain f
    where f: "find (\<lambda>f. name f = c) (categoryFields cfg fr) = Some f" by blast
  show ?thesis
    by (simp add: formatValue_found [OF f] getValues_found [OF f] Let_def)
qed


theorem getValues_total_witness:
  "''X'' \<in> set (categories (make_config \<lparr> changeDirection = topToBottom, toggleColor = False \<rparr>) scenario)
   \<and> (\<exists>cur r v.
         formatValue (make_config \<lparr> changeDirection = topToBottom, toggleColor = False \<rparr>) scenario
           \<lparr> category = ''X'', pivotIndex = 0 \<rparr> = Inr cur
       \<and> formatValue (make_config \<lparr> changeDirection = topToBottom, toggleColor = False \<rparr>) scenario
           \<lparr> category = ''X'', pivotIndex = - 1 \<rparr> = Inr r
       \<and> getValues (make_config \<lparr> changeDirection = topToBottom, toggleColor = False \<rparr>) scenario
           \<lparr> category = ''X'', pivotIndex = 0 \<rparr> = Inr v)"
proof -
  let ?cfg = "make_config \<lparr> changeDirection = topToBottom, toggleColor = False \<rparr>"
  have a: "''X'' \<in> set (categories ?cfg scenario)"
    by (simp add: categories_def categoryFields_def baseCategoryFields_def make_config_def
        scenario_def d3_sum_def js_gt_def CHART_REQUIRED_FIELDS_pivot_def)
  have "referenceChange ?cfg = - 1"
    by (simp add: make_config_def)
  with getValues_total [OF a, of 0] a show ?thesis
    by simp
qed

text \<open>
  Claim C10. A cell whose reference index lies outside the rows of its column and a cell
  with the same current value whose reference index lies inside and points at a stored 0
  get the same triple from \<open>getValues\<close>, with \<open>referenceValue = 0\<close>; so every decision
  taken from the triple, such as the by-change colour, is the same for both. The row count
  is the length of the column.
\<close>

theorem missing_reference_as_zero:
  assumes "find (\<lambda>f. name f = c1) (categoryFields cfg1 fr1) = Some f1"
    and "find (\<lambda>f. name f = c2) (categoryFields cfg2 fr2) = Some f2"
    and "\<not> (0 \<le> i1 + referenceChange cfg1 \<and> i1 + referenceChange cfg1 < int (length (values f1)))"
    and "0 \<le> i2 + referenceChange cfg2" and "i2 + referenceChange cfg2 < int (length (values f2))"
    and "values f2 ! nat (i2 + referenceChange cfg2) = Number (Fin 0)"
    and "formatValue cfg1 fr1 \<lparr> category = c1, pivotIndex = i1 \<rparr>
         = formatValue cfg2 fr2 \<lparr> category = c2, pivotIndex = i2 \<rparr>"
  shows "\<exists>v. getValues cfg1 fr1 \<lparr> category = c1, pivotIndex = i1 \<rparr> = Inr v
           \<and> getValues cfg2 fr2 \<lparr> category = c2, pivotIndex = i2 \<rparr> = Inr v
           \<and> referenceValue v = Fin 0
           \<and> colorChange cfg1 fr1 \<lparr> category = c1, pivotIndex = i1 \<rparr>
             = colorChange cfg2 fr2 \<lparr> category = c2, pivotIndex = i2 \<rparr>"
proof -
  have r1: "vector_get (values f1) (i1 + referenceChange cfg1) = Undefined"
    using assms(3) by (auto simp: vector_get_def)
  have r2: "vector_get (values f2) (i2 + referenceChange cfg2) = Number (Fin 0)"
    using assms(4,5,6) by (simp add: vector_get_def)
  have cur: "round2 (ToNumber (vector_get (values f1) i1)) = round2 (ToNumber (vector_get (values f2) i2))"
    using assms(7) by (simp add: formatValue_found [OF assms(1)] formatValue_found [OF assms(2)])
  have g: "getValues cfg1 fr1 \<lparr> category = c1, pivotIndex = i1 \<rparr>
           = getValues cfg2 fr2 \<lparr> category = c2, pivotIndex = i2 \<rparr>"
    by (simp add: getValues_found [OF assms(1)] getValues_found [OF assms(2)] r1 r2 cur Let_def)
  have "\<exists>v. getValues cfg2 fr2 \<lparr> category = c2, pivotIndex = i2 \<rparr> = Inr v \<and> referenceValue v = Fin 0"
    by (simp add: getValues_found [OF assms(2)] r2 Let_def)
  with g show ?thesis
    by (auto simp: colorChange_def)
qed

theorem missing_reference_as_zero_witness:
  "find (\<lambda>f. name f = ''X'')
     (categoryFields (make_config \<lparr> changeDirection = topToBottom, toggleColor = True \<rparr>) edge_table)
     = Some \<lparr> name = ''X'', values = [Number (Fin 20), Number (Fin 5)] \<rparr>
   \<and> find (\<lambda>f. name f = ''X'')
     (categoryFields (make_config \<lparr> changeDirection = bottomToTop, toggleColor = True \<rparr>) scenario)
     = Some \<lparr> name = ''X'', values = [Number (Fin 10), Number (Fin 20), Number (Fin 0)] \<rparr>
   \<and> getValues (make_config \<lparr> changeDirection = topToBottom, toggleColor = True \<rparr>) edge_table
        \<lparr> category = ''X'', pivotIndex = 0 \<rparr>
      = Inr \<lparr> currentValue = Fin 20, referenceValue = Fin 0, change = PosInf \<rparr>
   \<and> getValues (make_config \<lparr> changeDirection = bottomToTop, toggleColor = True \<rparr>) scenario
        \<lparr> category = ''X'', pivotIndex = 1 \<rparr>
      = Inr \<lparr> currentValue = Fin 20, referenceValue = Fin 0, change = PosInf \<rparr>"
proof -
  let ?c1 = "make_config \<lparr> changeDirection = topToBottom, toggleColor = True \<rparr>"
  let ?c2 = "make_config \<lparr> changeDirection = bottomToTop, toggleColor = True \<rparr>"
  let ?f1 = "\<lparr> name = ''X'', values = [Number (Fin 20), Number (Fin 5)] \<rparr>"
  let ?f2 = "\<lparr> name = ''X'', values = [Number (Fin 10), Number (Fin 20), Number (Fin 0)] \<rparr>"
  have a: "find (\<lambda>f. name f = ''X'') (categoryFields ?c1 edge_table) = Some ?f1"
    by (simp add: categoryFields_def baseCategoryFields_def make_config_def
        edge_table_def d3_sum_def js_gt_def CHART_REQUIRED_FIELDS_pivot_def)
  have b: "find (\<lambda>f. name f = ''X'') (categoryFields ?c2 scenario) = Some ?f2"
    by (simp add: categoryFields_def baseCategoryFields_def make_config_def
        scenario_def d3_sum_def js_gt_def CHART_REQUIRED_FIELDS_pivot_def)
  have c: "\<not> (0 \<le> 0 + referenceChange ?c1 \<and> 0 + referenceChange ?c1 < int (length (values ?f1)))"
    by (simp add: make_config_def)
  have d: "0 \<le> 1 + referenceChange ?c2" "1 + referenceChange ?c2 < int (length (values ?f2))"
    "values ?f2 ! nat (1 + referenceChange ?c2) = Number (Fin 0)"
    by (simp_all add: make_config_def)
  have e: "formatValue ?c1 edge_table \<lparr> category = ''X'', pivotIndex = 0 \<rparr>
           = formatValue ?c2 scenario \<lparr> category = ''X'', pivotIndex = 1 \<rparr>"
    by (simp only: formatValue_found [OF a] formatValue_found [OF b]) (simp add: vector_get_def)
  have g: "getValues ?c1 edge_table \<lparr> category = ''X'', pivotIndex = 0 \<rparr>
           = Inr \<lparr> currentValue = Fin 20, referenceValue = Fin 0, change = PosInf \<rparr>"
    by (subst getValues_found [OF a]) (simp add: vector_get_def make_config_def Let_def js_sub_def)
  from missing_reference_as_zero [OF a b c d e] g a b show ?thesis
    by auto
qed

section \<open>Colour selection\<close>


lemma channel_nogamma: "channel (nogamma a b (Fin t)) = mix_channel a b t"
  by (simp add: nogamma_def mix_channel_def Let_def mult.commute)

lemma interpolateRgb_mix: "interpolateRgb c1 c2 (Fin t) = mix c1 c2 t"
  by (cases c1; cases c2) (simp add: channel_nogamma)

lemma colorByChange_scale: "colorByChange (Fin x) = Some (change_scale x)"
  by (simp add: colorByChange_def change_scale_def normalize_def js_gt_def js_sub_def
      interpolateRgb_mix)

lemma change_scale_points:
  "change_scale (- (3 / 2)) = red" "change_scale 0 = pale_yellow" "change_scale (3 / 2) = green"
  by (simp_all add: change_scale_def red_def pale_yellow_def green_def mix_channel_def)

lemma colorByChange_zero [simp]: "colorByChange (Fin 0) = Some pale_yellow"
  by (simp add: colorByChange_scale change_scale_points)

lemma draw_cell_category:
  assumes "getValues cfg fr d = Inr v"
  shows "\<exists>c t. getColor interpolateBlues cfg fr d = Inr c \<and> formatValue cfg fr d = Inr t \<and>
           draw_cell d3_format interpolateBlues cfg fr d
           = Inr \<lparr> datum = d, fill = c, title = t,
                   value_dy = fst (value_line d3_format v),
                   value_text = snd (value_line d3_format v),
                   change_line = percent_line d3_format v \<rparr>"
proof -
  from assms obtain t where t: "formatValue cfg fr d = Inr t"
    by (auto simp: getValues_def Let_def split: sum.splits)
  have "\<exists>c. getColor interpolateBlues cfg fr d = Inr c"
    using assms by (simp add: getColor_def colorChange_def colorHeatmap_def Let_def)
  then obtain c where c: "getColor interpolateBlues cfg fr d = Inr c" by blast
  show ?thesis
    using assms t c by (simp add: draw_cell_def)
qed



section \<open>The scenario and the cell labels\<close>

text \<open>
  Claim C8. In the table with pivot column A, B, C and category column X = 10, 20, 0, under
  \<open>bottomToTop\<close>, the cell (X, row A) has \<open>referenceValue = 20\<close> and \<open>change = -0.5\<close>. The
  cell (X, row C) has \<open>currentValue = 0\<close>; its label is the dash and its fill is the
  by-change colour at 0, the pale yellow, whether its reference value is 0 (\<open>bottomToTop\<close>,
  no row below) or 20 (\<open>topToBottom\<close>).
\<close>

theorem scenario_cells:
  "getValues (make_config \<lparr> changeDirection = bottomToTop, toggleColor = t \<rparr>) scenario
     \<lparr> category = ''X'', pivotIndex = 0 \<rparr>
   = Inr \<lparr> currentValue = Fin 10, referenceValue = Fin 20, change = Fin (- (1 / 2)) \<rparr>
   \<and> (\<exists>v. getValues (make_config \<lparr> changeDirection = dir, toggleColor = t \<rparr>) scenario
             \<lparr> category = ''X'', pivotIndex = 2 \<rparr> = Inr v
          \<and> currentValue v = Fin 0
          \<and> referenceValue v = (case dir of bottomToTop \<Rightarrow> Fin 0 | topToBottom \<Rightarrow> Fin 20))
   \<and> draw_cell d3_format interpolateBlues
        (make_config \<lparr> changeDirection = dir, toggleColor = t \<rparr>) scenario
        \<lparr> category = ''X'', pivotIndex = 2 \<rparr>
      = Inr \<lparr> datum = \<lparr> category = ''X'', pivotIndex = 2 \<rparr>,
              fill = colorByChange (Fin 0), title = Fin 0,
              value_dy = ''.35em'', value_text = ''-'', change_line = None \<rparr>
   \<and> colorByChange (Fin 0) = Some pale_yellow"
proof -
  let ?cfg = "make_config \<lparr> changeDirection = dir, toggleColor = t \<rparr>"
  let ?d = "\<lparr> category = ''X'', pivotIndex = 2 \<rparr>"
  define ref where "ref = (case dir of bottomToTop \<Rightarrow> Fin 0 | topToBottom \<Rightarrow> Fin (20::rat))"
  have v: "getValues ?cfg scenario ?d
           = Inr \<lparr> currentValue = Fin 0, referenceValue = ref, change = js_div (js_sub (Fin 0) ref) ref \<rparr>"
    by (cases dir)
      (simp_all add: scenario_values referenceOffset_def vector_get_def Let_def or_zero_def ref_def)
  have t: "formatValue ?cfg scenario ?d = Inr (Fin 0)"
    by (simp add: formatValue_found [OF scenario_find] vector_get_def)
  have c: "getColor interpolateBlues ?cfg scenario ?d = Inr (colorByChange (Fin 0))"
    by (simp add: getColor_def colorChange_def v Let_def)
  have "draw_cell d3_format interpolateBlues ?cfg scenario ?d
      = Inr \<lparr> datum = ?d, fill = colorByChange (Fin 0), title = Fin 0,
              value_dy = ''.35em'', value_text = ''-'', change_line = None \<rparr>"
    by (simp add: draw_cell_def v t c value_line_def percent_line_def)
  with v scenario_first_cell [of t] show ?thesis
    by (simp add: ref_def)
qed

text \<open>
  Claim C5, as amended. For every cell, label line 1 is \<open>currentValue\<close> under the format
  \<open>.3~s\<close> when \<open>currentValue\<close> is neither zero nor NaN, and the dash otherwise; label line 2,
  \<open>change\<close> under the format \<open>.1%\<close>, is drawn exactly when \<open>currentValue\<close> is neither zero
  nor NaN and \<open>referenceValue\<close> is not zero.
\<close>

theorem cell_labels:
  assumes "category d \<in> set (categories cfg fr)"
  shows "\<exists>v c. getValues cfg fr d = Inr v
           \<and> draw_cell d3_format interpolateBlues cfg fr d = Inr c
           \<and> value_text c
             = (if currentValue v \<noteq> Fin 0 \<and> currentValue v \<noteq> NaN
                then d3_format ''.3~s'' (currentValue v) else ''-'')
           \<and> change_line c
             = (if currentValue v \<noteq> Fin 0 \<and> currentValue v \<noteq> NaN \<and> referenceValue v \<noteq> Fin 0
                then Some (''1em'', d3_format ''.1%'' (change v)) else None)"
proof -
  from getValues_category [OF assms] obtain v where v: "getValues cfg fr d = Inr v" by blast
  from draw_cell_category [OF v, of interpolateBlues d3_format] obtain c
    where c: "draw_cell d3_format interpolateBlues cfg fr d = Inr c"
      and l1: "value_text c = snd (value_line d3_format v)"
      and l2: "change_line c = percent_line d3_format v"
    by auto
  have r: "truthy (referenceValue v) \<longleftrightarrow> referenceValue v \<noteq> Fin 0"
    using getValues_reference_not_NaN [OF v] by (simp add: truthy_iff)
  show ?thesis
    using v c l1 l2 r by (simp add: value_line_def percent_line_def truthy_iff)
qed

theorem cell_labels_witness:
  "category \<lparr> category = ''X'', pivotIndex = 0 \<rparr>
     \<in> set (categories (make_config \<lparr> changeDirection = bottomToTop, toggleColor = True \<rparr>) scenario)
   \<and> (\<exists>c. draw_cell sample_format sample_palette
            (make_config \<lparr> changeDirection = bottomToTop, toggleColor = True \<rparr>) scenario
            \<lparr> category = ''X'', pivotIndex = 0 \<rparr> = Inr c
          \<and> value_text c = ''.3~s'' \<and> change_line c = Some (''1em'', ''.1%''))"
proof -
  let ?cfg = "make_config \<lparr> changeDirection = bottomToTop, toggleColor = True \<rparr>"
  let ?d = "\<lparr> category = ''X'', pivotIndex = 0 \<rparr>"
  have a: "category ?d \<in> set (categories ?cfg scenario)"
    by (simp add: categories_def scenario_fields)
  from cell_labels [OF a, of sample_format sample_palette] a show ?thesis
    by (auto simp: scenario_first_cell sample_format_def)
qed

text \<open>
  The claim as first stated tests both values against zero only. It fails where a
  measurement is NaN: the cell (X, row A) of \<open>nan_table\<close> has \<open>currentValue = NaN\<close> and
  \<open>referenceValue = 5\<close>, both different from zero, yet its label is the dash and no second
  line is drawn.
\<close>

theorem cell_labels_counterexample:
  "getValues (make_config \<lparr> changeDirection = bottomToTop, toggleColor = True \<rparr>) nan_table
     \<lparr> category = ''X'', pivotIndex = 0 \<rparr>
   = Inr \<lparr> currentValue = NaN, referenceValue = Fin 5, change = NaN \<rparr>
   \<and> NaN \<noteq> Fin 0 \<and> Fin 5 \<noteq> Fin 0
   \<and> draw_cell sample_format sample_palette
        (make_config \<lparr> changeDirection = bottomToTop, toggleColor = True \<rparr>) nan_table
        \<lparr> category = ''X'', pivotIndex = 0 \<rparr>
      = Inr \<lparr> datum = \<lparr> category = ''X'', pivotIndex = 0 \<rparr>, fill = None, title = NaN,
              value_dy = ''.35em'', value_text = ''-'', change_line = None \<rparr>
   \<and> sample_format ''.3~s'' NaN \<noteq> ''-''"
proof -
  let ?cfg = "make_config \<lparr> changeDirection = bottomToTop, toggleColor = True \<rparr>"
  let ?d = "\<lparr> category = ''X'', pivotIndex = 0 \<rparr>"
  have t: "formatValue ?cfg nan_table ?d = Inr NaN"
    by (simp add: formatValue_found [OF nan_table_find] vector_get_def)
  have k: "colorBy ?cfg = COLOR_CELL_BY_change"
    by (simp add: make_config_def)
  have c: "getColor sample_palette ?cfg nan_table ?d = Inr None"
    by (simp add: getColor_def k colorChange_def nan_table_values Let_def js_gt_def
        colorByChange_def)
  have "draw_cell sample_format sample_palette ?cfg nan_table ?d
      = Inr \<lparr> datum = ?d, fill = None, title = NaN,
              value_dy = ''.35em'', value_text = ''-'', change_line = None \<rparr>"
    by (simp add: draw_cell_def nan_table_values t c value_line_def percent_line_def)
  then show ?thesis
    by (simp add: nan_table_values sample_format_def)
qed

section \<open>Column pruning and the validation of the input\<close>




lemma each_total:
  assumes "\<forall>x \<in> set xs. \<exists>y. f x = Inr y"
  shows "each f xs = Inr (map (\<lambda>x. projr (f x)) xs)"
  using assms by (induction xs) auto

lemma matrix_data_category:
  "d \<in> set (matrix_data cfg fr) \<Longrightarrow> category d \<in> set (categories cfg fr)"
  by (auto simp: matrix_data_def)

lemma draw_cell_total:
  assumes "category d \<in> set (categories cfg fr)"
  shows "\<exists>c. draw_cell d3_format interpolateBlues cfg fr d = Inr c \<and> datum c = d
           \<and> getColor interpolateBlues cfg fr d = Inr (fill c)"
proof -
  from getValues_category [OF assms] obtain v where v: "getValues cfg fr d = Inr v" by blast
  from draw_cell_category [OF v, of interpolateBlues d3_format] show ?thesis
    by auto
qed

lemma chart_total:
  "chart d3_format interpolateBlues cfg fr
   = Inr (map (\<lambda>d. projr (draw_cell d3_format interpolateBlues cfg fr d)) (matrix_data cfg fr))"
  unfolding chart_def
  by (rule each_total) (use matrix_data_category draw_cell_total in blast)

lemma pivotAccesor_None:
  "pivotAccesor fr = None \<longleftrightarrow> ''pivot'' \<notin> name ` set (frame_fields fr)"
  by (force simp: pivotAccesor_def find_None_iff CHART_REQUIRED_FIELDS_pivot_def image_iff)

lemma HeatmapPanel_render:
  assumes "pivotAccesor fr = Some p"
  shows "HeatmapPanel d3_format interpolateBlues options fr
         = Inr \<lparr> panel_config = make_config options,
                 x_domain = categories (make_config options) fr,
                 y_domain = values p,
                 cells = map (\<lambda>d. projr (draw_cell d3_format interpolateBlues (make_config options) fr d))
                           (matrix_data (make_config options) fr) \<rparr>"
  using assms by (simp add: HeatmapPanel_def chart_total Let_def)



lemma scenario_pivot:
  "pivotAccesor scenario = Some \<lparr> name = ''pivot'', values = [Text ''A'', Text ''B'', Text ''C''] \<rparr>"
  by (simp add: pivotAccesor_def scenario_def CHART_REQUIRED_FIELDS_pivot_def)




text \<open>
  Claim C4. For a table without a column named \<open>pivot\<close> the panel throws the error
  \<open>Required fields not present: pivot\<close> and renders nothing; for a table with such a column
  it throws no error and renders the panel.
\<close>

theorem pivot_validation:
  "(''pivot'' \<notin> name ` set (frame_fields fr) \<longrightarrow>
      HeatmapPanel d3_format interpolateBlues options fr
      = Inl (Error ''Required fields not present: pivot''))
   \<and> (''pivot'' \<in> name ` set (frame_fields fr) \<longrightarrow>
      (\<exists>p. HeatmapPanel d3_format interpolateBlues options fr = Inr p))"
proof (cases "pivotAccesor fr")
  case None
  then have "HeatmapPanel d3_format interpolateBlues options fr
             = Inl (Error ''Required fields not present: pivot'')"
    by (simp add: HeatmapPanel_def CHART_REQUIRED_FIELDS_def Let_def)
  with None show ?thesis
    by (simp add: pivotAccesor_None)
next
  case (Some p)
  then have "''pivot'' \<in> name ` set (frame_fields fr)"
    using pivotAccesor_None [of fr] by auto
  with HeatmapPanel_render [OF Some] show ?thesis
    by simp
qed

theorem pivot_validation_witness:
  "''pivot'' \<notin> name ` set (frame_fields keyless_table)
   \<and> HeatmapPanel sample_format sample_palette \<lparr> changeDirection = bottomToTop, toggleColor = True \<rparr>
        keyless_table
      = Inl (Error ''Required fields not present: pivot'')
   \<and> ''pivot'' \<in> name ` set (frame_fields scenario)
   \<and> (\<exists>p. HeatmapPanel sample_format sample_palette
             \<lparr> changeDirection = bottomToTop, toggleColor = True \<rparr> scenario = Inr p)"
proof -
  have a: "''pivot'' \<notin> name ` set (frame_fields keyless_table)"
    by (simp add: keyless_table_def)
  have b: "''pivot'' \<in> name ` set (frame_fields scenario)"
    by (simp add: scenario_def)
  from pivot_validation [of keyless_table sample_format sample_palette
      "\<lparr> changeDirection = bottomToTop, toggleColor = True \<rparr>"]
    pivot_validation [of scenario sample_format sample_palette
      "\<lparr> changeDirection = bottomToTop, toggleColor = True \<rparr>"] a b
  show ?thesis by simp
qed

section \<open>The colour toggle\<close>

lemma COLOR_OPTIONS_SIZE_two: "COLOR_OPTIONS_SIZE = 2"
  by (simp add: COLOR_OPTIONS_SIZE_def COLOR_CELL_BY_def)

lemma categoryFields_colorBy [simp]:
  "categoryFields (cfg \<lparr> colorBy := k \<rparr>) fr = categoryFields cfg fr"
  by (simp add: categoryFields_def)

lemma formatValue_colorBy [simp]:
  "formatValue (cfg \<lparr> colorBy := k \<rparr>) fr d = formatValue cfg fr d"
  by (simp add: formatValue_def)

lemma getValues_colorBy [simp]:
  "getValues (cfg \<lparr> colorBy := k \<rparr>) fr d = getValues cfg fr d"
  by (simp add: getValues_def cong: sum.case_cong)

lemma getColor_total:
  assumes "getValues cfg fr d = Inr v"
  shows "\<exists>c. getColor interpolateBlues cfg fr d = Inr c"
  using assms by (simp add: getColor_def colorChange_def colorHeatmap_def Let_def)

lemma getColor_values:
  assumes "getColor interpolateBlues cfg fr d = Inr c" and "colorBy cfg < COLOR_OPTIONS_SIZE"
  shows "\<exists>v. getValues cfg fr d = Inr v"
proof (cases "getValues cfg fr d")
  case (Inl e)
  from assms(2) have "colorBy cfg = COLOR_CELL_BY_change \<or> colorBy cfg = COLOR_CELL_BY_heatmap"
    by (auto simp: COLOR_OPTIONS_SIZE_two COLOR_CELL_BY_change_def COLOR_CELL_BY_heatmap_def)
  with Inl assms(1) show ?thesis
    by (auto simp: getColor_def colorChange_def colorHeatmap_def split: if_splits)
next
  case (Inr v)
  then show ?thesis by blast
qed

lemma refill_ok:
  assumes "getColor interpolateBlues cfg fr (datum c) = Inr (fill c)"
    and "colorBy cfg < COLOR_OPTIONS_SIZE"
  shows "\<exists>col. getColor interpolateBlues (cfg \<lparr> colorBy := k \<rparr>) fr (datum c) = Inr col
           \<and> refill interpolateBlues (cfg \<lparr> colorBy := k \<rparr>) fr c = Inr (c \<lparr> fill := col \<rparr>)"
proof -
  from getColor_values [OF assms] obtain v where "getValues cfg fr (datum c) = Inr v" by blast
  then have "getValues (cfg \<lparr> colorBy := k \<rparr>) fr (datum c) = Inr v" by simp
  from getColor_total [OF this] obtain col
    where "getColor interpolateBlues (cfg \<lparr> colorBy := k \<rparr>) fr (datum c) = Inr col" by blast
  then show ?thesis by (simp add: refill_def)
qed

lemma toggle_back:
  assumes "k < COLOR_OPTIONS_SIZE"
  shows "((k + 1) mod COLOR_OPTIONS_SIZE + 1) mod COLOR_OPTIONS_SIZE = k"
    and "(k + 1) mod COLOR_OPTIONS_SIZE \<noteq> k"
    and "(k + 1) mod COLOR_OPTIONS_SIZE < COLOR_OPTIONS_SIZE"
  using assms unfolding COLOR_OPTIONS_SIZE_two by presburger+

lemma toggleColoring_step:
  assumes ok: "panel_ok interpolateBlues fr st"
    and on: "config.toggleColor (panel_config st)"
  shows "toggleColoring interpolateBlues fr st
         = Inr (st \<lparr> panel_config :=
                       (panel_config st)
                         \<lparr> colorBy := (colorBy (panel_config st) + 1) mod COLOR_OPTIONS_SIZE \<rparr>,
                     cells :=
                       map (\<lambda>c. c \<lparr> fill := projr (getColor interpolateBlues
                                     ((panel_config st)
                                        \<lparr> colorBy := (colorBy (panel_config st) + 1) mod COLOR_OPTIONS_SIZE \<rparr>)
                                     fr (datum c)) \<rparr>)
                         (cells st) \<rparr>)"
    and "panel_ok interpolateBlues fr
           (st \<lparr> panel_config :=
                   (panel_config st)
                     \<lparr> colorBy := (colorBy (panel_config st) + 1) mod COLOR_OPTIONS_SIZE \<rparr>,
                 cells :=
                   map (\<lambda>c. c \<lparr> fill := projr (getColor interpolateBlues
                                 ((panel_config st)
                                    \<lparr> colorBy := (colorBy (panel_config st) + 1) mod COLOR_OPTIONS_SIZE \<rparr>)
                                 fr (datum c)) \<rparr>)
                     (cells st) \<rparr>)"
proof -
  define cfg where "cfg = panel_config st"
  define cfg' where "cfg' = cfg \<lparr> colorBy := (colorBy cfg + 1) mod COLOR_OPTIONS_SIZE \<rparr>"
  define paint where "paint c = c \<lparr> fill := projr (getColor interpolateBlues cfg' fr (datum c)) \<rparr>"
    for c :: matrix_cell
  from ok have k: "colorBy cfg < COLOR_OPTIONS_SIZE"
    and fills: "\<forall>c \<in> set (cells st). getColor interpolateBlues cfg fr (datum c) = Inr (fill c)"
    by (simp_all add: panel_ok_def cfg_def list_all_iff)
  have step: "\<forall>c \<in> set (cells st). \<exists>y. refill interpolateBlues cfg' fr c = Inr y"
    using refill_ok [OF _ k] fills unfolding cfg'_def by blast
  have painted: "\<forall>c \<in> set (cells st). projr (refill interpolateBlues cfg' fr c) = paint c
                  \<and> getColor interpolateBlues cfg' fr (datum c) = Inr (fill (paint c))"
  proof
    fix c assume "c \<in> set (cells st)"
    with fills have "getColor interpolateBlues cfg fr (datum c) = Inr (fill c)" by blast
    from refill_ok [OF this k, of "(colorBy cfg + 1) mod COLOR_OPTIONS_SIZE"]
    show "projr (refill interpolateBlues cfg' fr c) = paint c
          \<and> getColor interpolateBlues cfg' fr (datum c) = Inr (fill (paint c))"
      by (auto simp: cfg'_def paint_def)
  qed
  have cs: "each (refill interpolateBlues cfg' fr) (cells st) = Inr (map paint (cells st))"
    using each_total [OF step] painted by (simp cong: map_cong)
  define st' where "st' = st \<lparr> panel_config := cfg', cells := map paint (cells st) \<rparr>"
  have "toggleColoring interpolateBlues fr st
          = (case each (refill interpolateBlues cfg' fr) (cells st) of
               Inl e \<Rightarrow> Inl e
             | Inr cs \<Rightarrow> Inr (st \<lparr> panel_config := cfg', cells := cs \<rparr>))"
    using on by (simp only: toggleColoring_def Let_def cfg'_def cfg_def simp_thms if_False)
  then have t: "toggleColoring interpolateBlues fr st = Inr st'"
    by (simp only: cs st'_def sum.case)
  have o: "panel_ok interpolateBlues fr st'"
    using painted toggle_back(3) [OF k]
    by (simp add: panel_ok_def st'_def list_all_iff cfg'_def paint_def)
  have e: "st' = st \<lparr> panel_config :=
                       (panel_config st)
                         \<lparr> colorBy := (colorBy (panel_config st) + 1) mod COLOR_OPTIONS_SIZE \<rparr>,
                     cells :=
                       map (\<lambda>c. c \<lparr> fill := projr (getColor interpolateBlues
                                     ((panel_config st)
                                        \<lparr> colorBy := (colorBy (panel_config st) + 1) mod COLOR_OPTIONS_SIZE \<rparr>)
                                     fr (datum c)) \<rparr>)
                         (cells st) \<rparr>"
    unfolding st'_def paint_def cfg'_def cfg_def ..
  from t show "toggleColoring interpolateBlues fr st
         = Inr (st \<lparr> panel_config :=
                       (panel_config st)
                         \<lparr> colorBy := (colorBy (panel_config st) + 1) mod COLOR_OPTIONS_SIZE \<rparr>,
                     cells :=
                       map (\<lambda>c. c \<lparr> fill := projr (getColor interpolateBlues
                                     ((panel_config st)
                                        \<lparr> colorBy := (colorBy (panel_config st) + 1) mod COLOR_OPTIONS_SIZE \<rparr>)
                                     fr (datum c)) \<rparr>)
                         (cells st) \<rparr>)"
    unfolding e .
  from o show "panel_ok interpolateBlues fr
           (st \<lparr> panel_config :=
                   (panel_config st)
                     \<lparr> colorBy := (colorBy (panel_config st) + 1) mod COLOR_OPTIONS_SIZE \<rparr>,
                 cells :=
                   map (\<lambda>c. c \<lparr> fill := projr (getColor interpolateBlues
                                 ((panel_config st)
                                    \<lparr> colorBy := (colorBy (panel_config st) + 1) mod COLOR_OPTIONS_SIZE \<rparr>)
                                 fr (datum c)) \<rparr>)
                     (cells st) \<rparr>)"
    unfolding e .
qed

lemma HeatmapPanel_ok:
  assumes "HeatmapPanel d3_format interpolateBlues options fr = Inr st"
  shows "panel_ok interpolateBlues fr st" and "panel_config st = make_config options"
proof -
  from assms obtain p where p: "pivotAccesor fr = Some p"
    by (cases "pivotAccesor fr") (auto simp: HeatmapPanel_def Let_def)
  from HeatmapPanel_render [OF p, of d3_format interpolateBlues options] assms
  have st: "st = \<lparr> panel_config = make_config options,
                   x_domain = categories (make_config options) fr,
                   y_domain = values p,
                   cells = map (\<lambda>d. projr (draw_cell d3_format interpolateBlues (make_config options) fr d))
                             (matrix_data (make_config options) fr) \<rparr>"
    by simp
  show "panel_config st = make_config options"
    by (simp add: st)
  have "\<forall>d \<in> set (matrix_data (make_config options) fr).
          getColor interpolateBlues (make_config options) fr
            (datum (projr (draw_cell d3_format interpolateBlues (make_config options) fr d)))
          = Inr (fill (projr (draw_cell d3_format interpolateBlues (make_config options) fr d)))"
  proof
    fix d assume "d \<in> set (matrix_data (make_config options) fr)"
    then have "category d \<in> set (categories (make_config options) fr)"
      by (rule matrix_data_category)
    from draw_cell_total [OF this, of d3_format interpolateBlues]
    show "getColor interpolateBlues (make_config options) fr
            (datum (projr (draw_cell d3_format interpolateBlues (make_config options) fr d)))
          = Inr (fill (projr (draw_cell d3_format interpolateBlues (make_config options) fr d)))"
      by auto
  qed
  then show "panel_ok interpolateBlues fr st"
    by (simp add: st panel_ok_def list_all_iff COLOR_OPTIONS_SIZE_two COLOR_CELL_BY_change_def)
qed

text \<open>
  Claim C6. Every rendered panel is coherent, and a click with the toggle enabled takes a
  coherent panel to a coherent panel in the other colour mode; a second click gives back
  the panel before the first: the colour mode and the fill of every cell are the ones
  before the two clicks.
\<close>

theorem toggle_twice:
  "(HeatmapPanel d3_format interpolateBlues options fr = Inr st0 \<longrightarrow>
      panel_ok interpolateBlues fr st0)
   \<and> (panel_ok interpolateBlues fr st \<and> config.toggleColor (panel_config st) \<longrightarrow>
      (\<exists>st'. toggleColoring interpolateBlues fr st = Inr st'
            \<and> panel_ok interpolateBlues fr st'
            \<and> colorBy (panel_config st') \<noteq> colorBy (panel_config st)
            \<and> toggleColoring interpolateBlues fr st' = Inr st))"
proof (intro conjI impI)
  assume "HeatmapPanel d3_format interpolateBlues options fr = Inr st0"
  then show "panel_ok interpolateBlues fr st0"
    by (rule HeatmapPanel_ok)
next
  assume a: "panel_ok interpolateBlues fr st \<and> config.toggleColor (panel_config st)"
  then have ok: "panel_ok interpolateBlues fr st" and on: "config.toggleColor (panel_config st)"
    by simp_all
  define cfg where "cfg = panel_config st"
  define cfg' where "cfg' = cfg \<lparr> colorBy := (colorBy cfg + 1) mod COLOR_OPTIONS_SIZE \<rparr>"
  define st' where "st' = st \<lparr> panel_config := cfg',
      cells := map (\<lambda>c. c \<lparr> fill := projr (getColor interpolateBlues cfg' fr (datum c)) \<rparr>) (cells st) \<rparr>"
  from ok have k: "colorBy cfg < COLOR_OPTIONS_SIZE"
    and fills: "\<forall>c \<in> set (cells st). getColor interpolateBlues cfg fr (datum c) = Inr (fill c)"
    by (simp_all add: panel_ok_def cfg_def list_all_iff)
  have t1: "toggleColoring interpolateBlues fr st = Inr st'"
    using toggleColoring_step(1) [OF ok on] by (simp only: st'_def cfg'_def cfg_def)
  have ok': "panel_ok interpolateBlues fr st'"
    using toggleColoring_step(2) [OF ok on] by (simp only: st'_def cfg'_def cfg_def)
  have on': "config.toggleColor (panel_config st')"
    using on by (simp add: st'_def cfg'_def cfg_def)
  have restored: "(panel_config st') \<lparr> colorBy := (colorBy (panel_config st') + 1) mod COLOR_OPTIONS_SIZE \<rparr> = cfg"
    using toggle_back(1) [OF k] by (simp add: st'_def cfg'_def)
  have cells_back: "map (\<lambda>c. c \<lparr> fill := projr (getColor interpolateBlues cfg fr (datum c)) \<rparr>) (cells st')
                    = cells st"
  proof -
    have "map (\<lambda>c. c \<lparr> fill := projr (getColor interpolateBlues cfg fr (datum c)) \<rparr>) (cells st')
          = map (\<lambda>c. c \<lparr> fill := projr (getColor interpolateBlues cfg fr (datum c)) \<rparr>) (cells st)"
      by (simp add: st'_def comp_def)
    also have "\<dots> = map (\<lambda>c. c) (cells st)"
      using fills by (intro map_cong refl) simp
    finally show ?thesis by simp
  qed
  have t2: "toggleColoring interpolateBlues fr st' = Inr st"
    using toggleColoring_step(1) [OF ok' on']
    by (simp only: restored cells_back) (simp add: st'_def cfg_def)
  have "colorBy (panel_config st') \<noteq> colorBy (panel_config st)"
    using toggle_back(2) [OF k] by (simp add: st'_def cfg'_def cfg_def)
  with t1 ok' t2 show "\<exists>st'. toggleColoring interpolateBlues fr st = Inr st'
            \<and> panel_ok interpolateBlues fr st'
            \<and> colorBy (panel_config st') \<noteq> colorBy (panel_config st)
            \<and> toggleColoring interpolateBlues fr st' = Inr st"
    by blast
qed

theorem toggle_twice_witness:
  "\<exists>st0 st'.
     HeatmapPanel sample_format sample_palette
       \<lparr> changeDirection = bottomToTop, toggleColor = True \<rparr> scenario = Inr st0
     \<and> panel_ok sample_palette scenario st0
     \<and> config.toggleColor (panel_config st0)
     \<and> colorBy (panel_config st0) = COLOR_CELL_BY_change
     \<and> toggleColoring sample_palette scenario st0 = Inr st'
     \<and> colorBy (panel_config st') \<noteq> COLOR_CELL_BY_change
     \<and> toggleColoring sample_palette scenario st' = Inr st0"
proof -
  let ?o = "\<lparr> changeDirection = bottomToTop, toggleColor = True \<rparr>"
  from HeatmapPanel_render [OF scenario_pivot, of sample_format sample_palette ?o]
  obtain st0 where r: "HeatmapPanel sample_format sample_palette ?o scenario = Inr st0"
    and c: "panel_config st0 = make_config ?o"
    by simp
  from toggle_twice [of sample_format sample_palette ?o scenario st0 st0] r
  have ok: "panel_ok sample_palette scenario st0"
    by blast
  have on: "config.toggleColor (panel_config st0)"
    by (simp add: c make_config_def)
  have k: "colorBy (panel_config st0) = COLOR_CELL_BY_change"
    by (simp add: c)
  from toggle_twice [of sample_format sample_palette ?o scenario st0 st0] ok on
  obtain st' where "toggleColoring sample_palette scenario st0 = Inr st'"
    and "colorBy (panel_config st') \<noteq> colorBy (panel_config st0)"
    and "toggleColoring sample_palette scenario st' = Inr st0"
    by blast
  with r ok on k show ?thesis
    by auto
qed

text \<open>
  Claim C7. With the toggle switched off a click leaves the panel as it is: the colour mode
  and every cell stay unchanged. This holds for every panel rendered from options whose
  \<open>toggleColor\<close> is false.
\<close>

theorem toggle_disabled:
  "(\<not> config.toggleColor (panel_config st) \<longrightarrow> toggleColoring interpolateBlues fr st = Inr st)
   \<and> (\<not> toggleColor options \<and> HeatmapPanel d3_format interpolateBlues options fr = Inr st0 \<longrightarrow>
        toggleColoring interpolateBlues fr st0 = Inr st0)"
proof (intro conjI impI)
  assume "\<not> config.toggleColor (panel_config st)"
  then show "toggleColoring interpolateBlues fr st = Inr st"
    by (simp add: toggleColoring_def)
next
  assume a: "\<not> toggleColor options \<and> HeatmapPanel d3_format interpolateBlues options fr = Inr st0"
  then have "panel_config st0 = make_config options"
    using HeatmapPanel_ok(2) by blast
  with a have "\<not> config.toggleColor (panel_config st0)"
    by (simp add: make_config_def)
  then show "toggleColoring interpolateBlues fr st0 = Inr st0"
    by (simp add: toggleColoring_def)
qed

theorem toggle_disabled_witness:
  "\<exists>st0.
     \<not> toggleColor \<lparr> changeDirection = bottomToTop, toggleColor = False \<rparr>
     \<and> HeatmapPanel sample_format sample_palette
         \<lparr> changeDirection = bottomToTop, toggleColor = False \<rparr> scenario = Inr st0
     \<and> \<not> config.toggleColor (panel_config st0)
     \<and> toggleColoring sample_palette scenario st0 = Inr st0"
proof -
  let ?o = "\<lparr> changeDirection = bottomToTop, toggleColor = False \<rparr>"
  from HeatmapPanel_render [OF scenario_pivot, of sample_format sample_palette ?o]
  obtain st0 where r: "HeatmapPanel sample_format sample_palette ?o scenario = Inr st0"
    and c: "panel_config st0 = make_config ?o"
    by simp
  have off: "\<not> config.toggleColor (panel_config st0)"
    by (simp add: c make_config_def)
  from toggle_disabled [of st0 sample_palette scenario ?o sample_format st0] r off
  show ?thesis
    by auto
qed

end
